theory Spec2Isabelle
  imports Complex_Main "HOL-Library.AList"
begin

section \<open>Values, errors and the collaborators of \<^verbatim>\<open>callbacks/monitor.py\<close>\<close>

text \<open>
  A Python \<^verbatim>\<open>float\<close>, an IEEE double: a finite value, given by the real number it
  denotes, an infinity, or NaN. The sign of a zero is not kept.
\<close>

datatype pyfloat = Finite real | PosInf | NegInf | NaN

text \<open>
  Python values that reach the monitors; \<^verbatim>\<open>None\<close> stands for the objects on which
  \<^verbatim>\<open>float()\<close> raises \<^verbatim>\<open>TypeError\<close>.
\<close>

datatype pyval = PyFloat pyfloat | PyInt int | PyBool bool | PyNone

datatype error =
    AttributeError
  | KeyError string
  | TypeError
  | ValueError
  | OverflowError
  | AssertionError
  | DecodeError

text \<open>Rounding to the nearest integer, a tie going to the even one.\<close>

definition round_half_even :: "real \<Rightarrow> int" where
  "round_half_even y =
     (let f = \<lfloor>y\<rfloor>; d = y - of_int f
      in if d < 1 / 2 then f else if 1 / 2 < d then f + 1 else if even f then f else f + 1)"

text \<open>\<^verbatim>\<open>int.bit_length()\<close> of a non-negative int.\<close>

function bit_length :: "int \<Rightarrow> nat" where
  "bit_length a = (if a \<le> 0 then 0 else Suc (bit_length (a div 2)))"
  by pat_completeness auto
termination
  by (relation "measure nat") auto

declare bit_length.simps [simp del]

text \<open>
  \<^verbatim>\<open>float(i)\<close> for an int: the nearest double, that is \<^verbatim>\<open>i\<close> rounded to 53 significant
  bits, a tie going to the even one; \<^verbatim>\<open>OverflowError\<close> when that is beyond the largest
  double.
\<close>

definition int_to_float64 :: "int \<Rightarrow> error + pyfloat" where
  "int_to_float64 i =
     (let a = \<bar>i\<bar>; n = bit_length a
      in if n \<le> 53 then Inr (Finite (of_int i))
         else
           (let q = 2 ^ (n - 53); r = round_half_even (of_int a / of_int q) * q
            in if 2 ^ 1024 \<le> r then Inl OverflowError else Inr (Finite (of_int (sgn i * r)))))"

text \<open>The builtin \<^verbatim>\<open>float(val)\<close>.\<close>

fun py_float :: "pyval \<Rightarrow> error + pyfloat" where
  "py_float (PyFloat x) = Inr x"
| "py_float (PyInt i) = int_to_float64 i"
| "py_float (PyBool b) = Inr (Finite (if b then 1 else 0))"
| "py_float PyNone = Inl TypeError"

text \<open>
  The conversion of a double to single precision that a protocol-buffer field of type
  \<^verbatim>\<open>float\<close> performs on assignment: the nearest value with 24 significant bits and an
  exponent from -126 to 127 (below that, a multiple of \<^verbatim>\<open>2^-149\<close>), a tie going to the
  even one, and an infinity when that is beyond the largest single.
\<close>

definition pow2 :: "int \<Rightarrow> real" where
  "pow2 k = (if 0 \<le> k then 2 ^ nat k else 1 / 2 ^ nat (- k))"

definition float32_exponent :: "real \<Rightarrow> int" where
  "float32_exponent a = int (length (filter (\<lambda>k. pow2 k \<le> a) [- 125..127])) - 126"

definition to_float32 :: "pyfloat \<Rightarrow> pyfloat" where
  "to_float32 x =
     (case x of
        Finite r \<Rightarrow>
          (let a = \<bar>r\<bar>; q = pow2 (float32_exponent a - 23);
               v = of_int (round_half_even (a / q)) * q
           in if pow2 128 \<le> v then (if 0 < r then PosInf else NegInf)
              else Finite (sgn r * v))
      | _ \<Rightarrow> x)"

text \<open>
  A \<^verbatim>\<open>tf.Summary\<close>: the repeated field \<^verbatim>\<open>value\<close>, each entry a tag and a
  \<^verbatim>\<open>oneof value\<close>. Only \<^verbatim>\<open>simple_value\<close>, a field of type \<^verbatim>\<open>float\<close> that holds
  a single-precision number, is interpreted by the monitors; the content of the other
  alternatives is opaque.
\<close>

datatype summary_field = simple_value pyfloat | image | histo | audio | tensor | not_set

type_synonym summary_value = "string \<times> summary_field"
type_synonym summary = "summary_value list"


text \<open>
  The trainer a monitor is bound to by \<^verbatim>\<open>setup_graph\<close>
  (\<^verbatim>\<open>trainer.config.steps_per_epoch\<close> is the only thing read from it here), and the
  live counters \<^verbatim>\<open>self.local_step\<close>, \<^verbatim>\<open>self.epoch_num\<close>, \<^verbatim>\<open>self.global_step\<close>,
  which are properties of the base class \<^verbatim>\<open>Callback\<close> (\<^verbatim>\<open>callbacks/base.py\<close>) and
  are passed to every method that reads them.
\<close>

record trainer =
  steps_per_epoch :: int

record counters =
  local_step :: int
  epoch_num :: int
  global_step :: int

section \<open>Tag normalisation in \<^verbatim>\<open>Monitors.put_summary\<close>\<close>







section \<open>The monitors\<close>

subsection \<open>\<^verbatim>\<open>TFSummaryWriter\<close>\<close>

text \<open>
  The \<^verbatim>\<open>tf.summary.FileWriter\<close> held in \<^verbatim>\<open>_writer\<close>: the summaries added to it,
  each with the global step it was added at.
\<close>

record tf_writer =
  added :: "(summary \<times> int) list"

definition TFSummaryWriter_setup_graph :: "tf_writer" where
  "TFSummaryWriter_setup_graph = \<lparr>added = []\<rparr>"

definition TFSummaryWriter_put_summary ::
  "counters \<Rightarrow> summary \<Rightarrow> tf_writer option \<Rightarrow> error option \<times> tf_writer option" where
  "TFSummaryWriter_put_summary c s w =
     (case w of
        None \<Rightarrow> (Some AttributeError, None)
      | Some wr \<Rightarrow> (None, Some (wr\<lparr>added := added wr @ [(s, global_step c)]\<rparr>)))"

subsection \<open>\<^verbatim>\<open>JSONWriter\<close>\<close>

text \<open>
  A Python \<^verbatim>\<open>dict\<close> is an association list in insertion order with distinct keys:
  \<^verbatim>\<open>d[k] = v\<close> is \<^const>\<open>AList.update\<close>, \<^verbatim>\<open>len(d)\<close> is \<^const>\<open>length\<close>.
  A row of \<^verbatim>\<open>stat.json\<close> is such a dict.
\<close>

type_synonym row = "(string \<times> pyval) list"

text \<open>
  What is found at \<^verbatim>\<open>os.path.join(logger.LOG_DIR, 'stat.json')\<close>: no file, a JSON
  array of rows, some other JSON document, or something that is not JSON.
\<close>

datatype stat_file = no_file | json_rows "row list" | json_non_list | not_json

text \<open>
  The attributes that \<^verbatim>\<open>JSONWriter._setup_graph\<close> creates. \<^verbatim>\<open>stat_json\<close> is the
  content of the file named by \<^verbatim>\<open>_fname\<close>; \<^verbatim>\<open>logged\<close> counts the calls of
  \<^verbatim>\<open>logger.exception\<close>.
\<close>

record json_writer =
  stats :: "row list"
  stat_now :: row
  last_gs :: int
  total :: int
  stat_json :: stat_file
  logged :: nat

text \<open>
  \<^verbatim>\<open>_setup_graph\<close>. When \<^verbatim>\<open>json.load\<close> or the assertion fails, \<^verbatim>\<open>_stat_now\<close> and
  \<^verbatim>\<open>_total\<close> have not been assigned, and every method of the class reads one of
  them first: the object behaves as one that was never set up, and is modelled so.
\<close>

definition JSONWriter_setup_graph ::
  "stat_file \<Rightarrow> trainer \<Rightarrow> error option \<times> json_writer option" where
  "JSONWriter_setup_graph f tr =
     (case f of
        no_file \<Rightarrow>
          (None, Some \<lparr>stats = [], stat_now = [], last_gs = - 1,
                       total = steps_per_epoch tr, stat_json = f, logged = 0\<rparr>)
      | json_rows rows \<Rightarrow>
          (None, Some \<lparr>stats = rows, stat_now = [], last_gs = - 1,
                       total = steps_per_epoch tr, stat_json = f, logged = 0\<rparr>)
      | json_non_list \<Rightarrow> (Some AssertionError, None)
      | not_json \<Rightarrow> (Some ValueError, None))"

text \<open>
  \<^verbatim>\<open>_write_stat\<close>: \<^verbatim>\<open>io_ok\<close> tells whether writing the temporary file and moving it
  over \<^verbatim>\<open>stat.json\<close> succeed; an \<^verbatim>\<open>IOError\<close> is caught and logged.
\<close>

definition JSONWriter_write_stat :: "bool \<Rightarrow> json_writer \<Rightarrow> json_writer" where
  "JSONWriter_write_stat io_ok w =
     (if io_ok then w\<lparr>stat_json := json_rows (stats w)\<rparr>
      else w\<lparr>logged := Suc (logged w)\<rparr>)"

definition JSONWriter_push :: "counters \<Rightarrow> bool \<Rightarrow> json_writer \<Rightarrow> json_writer" where
  "JSONWriter_push c io_ok w =
     (if length (stat_now w) \<noteq> 0 then
        (let now1 = AList.update ''epoch_num'' (PyInt (epoch_num c)) (stat_now w);
             now2 = AList.update ''global_step'' (PyInt (global_step c)) now1
         in JSONWriter_write_stat io_ok (w\<lparr>stats := stats w @ [now2], stat_now := []\<rparr>))
      else w)"

definition JSONWriter_trigger_step :: "counters \<Rightarrow> bool \<Rightarrow> json_writer \<Rightarrow> json_writer" where
  "JSONWriter_trigger_step c io_ok w =
     (if local_step c \<noteq> total w - 1 then JSONWriter_push c io_ok w else w)"

definition JSONWriter_trigger_epoch :: "counters \<Rightarrow> bool \<Rightarrow> json_writer \<Rightarrow> json_writer" where
  "JSONWriter_trigger_epoch c io_ok w = JSONWriter_push c io_ok w"

text \<open>
  \<^verbatim>\<open>self._stat_now[name] = float(val)\<close>: the right-hand side is evaluated before the
  attribute is looked up.
\<close>

definition JSONWriter_put_scalar ::
  "string \<Rightarrow> pyval \<Rightarrow> json_writer option \<Rightarrow> error option \<times> json_writer option" where
  "JSONWriter_put_scalar name val w =
     (case py_float val of
        Inl e \<Rightarrow> (Some e, w)
      | Inr x \<Rightarrow>
          (case w of
             None \<Rightarrow> (Some AttributeError, None)
           | Some jw \<Rightarrow> (None, Some (jw\<lparr>stat_now := AList.update name (PyFloat x) (stat_now jw)\<rparr>))))"

subsection \<open>\<^verbatim>\<open>ScalarPrinter\<close>\<close>

text \<open>
  The constructor's flags and the attributes that \<^verbatim>\<open>_setup_graph\<close> creates. Only what
  the hub reaches is treated here: set-up and \<^verbatim>\<open>put_scalar\<close>. The printing hooks
  (\<^verbatim>\<open>_trigger_step\<close>, \<^verbatim>\<open>_trigger_epoch\<close>, \<^verbatim>\<open>_print_stat\<close>) and the two name lists
  they consult are left out.
\<close>

record scalar_printer_config =
  enable_step :: bool
  enable_epoch :: bool

record scalar_printer =
  printer_dic :: "(string \<times> pyfloat) list"
  printer_total :: int

definition ScalarPrinter_setup_graph :: "trainer \<Rightarrow> scalar_printer" where
  "ScalarPrinter_setup_graph tr = \<lparr>printer_dic = [], printer_total = steps_per_epoch tr\<rparr>"

definition ScalarPrinter_put_scalar ::
  "string \<Rightarrow> pyval \<Rightarrow> scalar_printer option \<Rightarrow> error option \<times> scalar_printer option" where
  "ScalarPrinter_put_scalar name val p =
     (case py_float val of
        Inl e \<Rightarrow> (Some e, p)
      | Inr x \<Rightarrow>
          (case p of
             None \<Rightarrow> (Some AttributeError, None)
           | Some sp \<Rightarrow> (None, Some (sp\<lparr>printer_dic := AList.update name x (printer_dic sp)\<rparr>))))"

subsection \<open>\<^verbatim>\<open>ScalarHistory\<close>\<close>

text \<open>
  \<^verbatim>\<open>_dic\<close> is a \<^verbatim>\<open>defaultdict(list)\<close>: reading a missing key inserts it with the
  empty list. \<^verbatim>\<open>dic\<close> is \<^const>\<open>None\<close> until \<^verbatim>\<open>_setup_graph\<close> has run.
\<close>

type_synonym history_dic = "(string \<times> pyfloat list) list"

record ScalarHistory =
  history_trainer :: "trainer option"
  dic :: "history_dic option"

definition defaultdict_getitem :: "history_dic \<Rightarrow> string \<Rightarrow> pyfloat list \<times> history_dic" where
  "defaultdict_getitem d k =
     (case map_of d k of
        Some xs \<Rightarrow> (xs, d)
      | None \<Rightarrow> ([], d @ [(k, [])]))"

text \<open>\<^verbatim>\<open>TrainingMonitor.setup_graph\<close> on the store, with its \<^verbatim>\<open>_setup_graph\<close>.\<close>

definition ScalarHistory_setup_graph :: "trainer \<Rightarrow> ScalarHistory \<Rightarrow> ScalarHistory" where
  "ScalarHistory_setup_graph tr h = h\<lparr>history_trainer := Some tr, dic := Some []\<rparr>"

text \<open>
  \<^verbatim>\<open>self._dic[name].append(float(val))\<close>: the list is fetched (and the key created)
  before \<^verbatim>\<open>float(val)\<close> is evaluated.
\<close>

definition ScalarHistory_put_scalar ::
  "string \<Rightarrow> pyval \<Rightarrow> ScalarHistory \<Rightarrow> error option \<times> ScalarHistory" where
  "ScalarHistory_put_scalar name val h =
     (case dic h of
        None \<Rightarrow> (Some AttributeError, h)
      | Some d \<Rightarrow>
          (case defaultdict_getitem d name of
             (hist, d1) \<Rightarrow>
               (case py_float val of
                  Inl e \<Rightarrow> (Some e, h\<lparr>dic := Some d1\<rparr>)
                | Inr x \<Rightarrow> (None, h\<lparr>dic := Some (AList.update name (hist @ [x]) d1)\<rparr>))))"

definition ScalarHistory_get_latest ::
  "string \<Rightarrow> ScalarHistory \<Rightarrow> (error + pyfloat) \<times> ScalarHistory" where
  "ScalarHistory_get_latest name h =
     (case dic h of
        None \<Rightarrow> (Inl AttributeError, h)
      | Some d \<Rightarrow>
          (case defaultdict_getitem d name of
             (hist, d1) \<Rightarrow>
               (if length hist = 0 then (Inl (KeyError name), h\<lparr>dic := Some d1\<rparr>)
                else (Inr (last hist), h\<lparr>dic := Some d1\<rparr>))))"

definition ScalarHistory_get_history ::
  "string \<Rightarrow> ScalarHistory \<Rightarrow> (error + pyfloat list) \<times> ScalarHistory" where
  "ScalarHistory_get_history name h =
     (case dic h of
        None \<Rightarrow> (Inl AttributeError, h)
      | Some d \<Rightarrow>
          (case defaultdict_getitem d name of
             (hist, d1) \<Rightarrow> (Inr hist, h\<lparr>dic := Some d1\<rparr>)))"

subsection \<open>The monitor objects and their methods\<close>

text \<open>
  An object of one of the monitor classes: the \<^verbatim>\<open>trainer\<close> attribute (absent until
  \<^verbatim>\<open>setup_graph\<close>) and the attributes its own \<^verbatim>\<open>_setup_graph\<close> creates (absent
  until then).
\<close>

datatype monitor =
    NoOpMonitor "trainer option"
  | TFSummaryWriter "trainer option" "tf_writer option"
  | JSONWriter "trainer option" "json_writer option"
  | ScalarPrinter scalar_printer_config "trainer option" "scalar_printer option"

text \<open>\<^verbatim>\<open>if logger.LOG_DIR:\<close> on a value that is \<^verbatim>\<open>None\<close> or a string.\<close>

definition truthy :: "string option \<Rightarrow> bool" where
  "truthy d = (case d of None \<Rightarrow> False | Some s \<Rightarrow> s \<noteq> [])"

text \<open>
  \<^verbatim>\<open>TFSummaryWriter.__new__\<close> and \<^verbatim>\<open>JSONWriter.__new__\<close>, given
  \<^verbatim>\<open>logger.LOG_DIR\<close>: the object and the warnings logged.
\<close>

definition TFSummaryWriter_new :: "string option \<Rightarrow> monitor \<times> string list" where
  "TFSummaryWriter_new LOG_DIR =
     (if truthy LOG_DIR then (TFSummaryWriter None None, [])
      else (NoOpMonitor None, [''logger directory was not set. Ignore TFSummaryWriter.'']))"

definition JSONWriter_new :: "string option \<Rightarrow> monitor \<times> string list" where
  "JSONWriter_new LOG_DIR =
     (if truthy LOG_DIR then (JSONWriter None None, [])
      else (NoOpMonitor None, [''logger directory was not set. Ignore JSONWriter.'']))"

definition ScalarPrinter_init :: "bool \<Rightarrow> bool \<Rightarrow> monitor" where
  "ScalarPrinter_init es ee = ScalarPrinter \<lparr>enable_step = es, enable_epoch = ee\<rparr> None None"

text \<open>
  \<^verbatim>\<open>TrainingMonitor.setup_graph\<close>, with the \<^verbatim>\<open>_setup_graph\<close> of the object's class;
  \<^verbatim>\<open>f\<close> is what \<^verbatim>\<open>JSONWriter\<close> finds on disk. When \<^verbatim>\<open>JSONWriter._setup_graph\<close>
  raises, the attributes stay as they were.
\<close>

definition monitor_setup_graph ::
  "stat_file \<Rightarrow> trainer \<Rightarrow> monitor \<Rightarrow> error option \<times> monitor" where
  "monitor_setup_graph f tr m =
     (case m of
        NoOpMonitor t \<Rightarrow> (None, NoOpMonitor (Some tr))
      | TFSummaryWriter t w \<Rightarrow> (None, TFSummaryWriter (Some tr) (Some TFSummaryWriter_setup_graph))
      | JSONWriter t w \<Rightarrow>
          (case JSONWriter_setup_graph f tr of
             (None, w') \<Rightarrow> (None, JSONWriter (Some tr) w')
           | (Some e, w') \<Rightarrow> (Some e, JSONWriter (Some tr) w))
      | ScalarPrinter cfg t p \<Rightarrow>
          (None, ScalarPrinter cfg (Some tr) (Some (ScalarPrinter_setup_graph tr))))"

text \<open>\<^verbatim>\<open>TrainingMonitor.put_summary\<close> and \<^verbatim>\<open>TrainingMonitor.put\<close>: \<^verbatim>\<open>pass\<close>.\<close>

definition TrainingMonitor_put_summary :: "summary \<Rightarrow> monitor \<Rightarrow> error option \<times> monitor" where
  "TrainingMonitor_put_summary s m = (None, m)"

definition TrainingMonitor_put :: "string \<Rightarrow> pyval \<Rightarrow> monitor \<Rightarrow> error option \<times> monitor" where
  "TrainingMonitor_put name val m = (None, m)"

text \<open>\<^verbatim>\<open>TrainingMonitor.put_scalar\<close> calls \<^verbatim>\<open>self.put\<close>, which none of these classes overrides.\<close>

definition TrainingMonitor_put_scalar :: "string \<Rightarrow> pyval \<Rightarrow> monitor \<Rightarrow> error option \<times> monitor" where
  "TrainingMonitor_put_scalar name val m = TrainingMonitor_put name val m"

text \<open>\<^verbatim>\<open>m.put_summary(summary)\<close> and \<^verbatim>\<open>m.put_scalar(name, val)\<close>, resolved on the class of \<^verbatim>\<open>m\<close>.\<close>

definition monitor_put_summary :: "counters \<Rightarrow> summary \<Rightarrow> monitor \<Rightarrow> error option \<times> monitor" where
  "monitor_put_summary c s m =
     (case m of
        TFSummaryWriter t w \<Rightarrow>
          (case TFSummaryWriter_put_summary c s w of (e, w') \<Rightarrow> (e, TFSummaryWriter t w'))
      | _ \<Rightarrow> TrainingMonitor_put_summary s m)"

definition monitor_put_scalar :: "string \<Rightarrow> pyval \<Rightarrow> monitor \<Rightarrow> error option \<times> monitor" where
  "monitor_put_scalar name val m =
     (case m of
        JSONWriter t w \<Rightarrow>
          (case JSONWriter_put_scalar name val w of (e, w') \<Rightarrow> (e, JSONWriter t w'))
      | ScalarPrinter cfg t p \<Rightarrow>
          (case ScalarPrinter_put_scalar name val p of (e, p') \<Rightarrow> (e, ScalarPrinter cfg t p'))
      | _ \<Rightarrow> TrainingMonitor_put_scalar name val m)"

text \<open>
  Modelled from the spec: the base class \<^verbatim>\<open>Callback\<close> (\<^verbatim>\<open>callbacks/base.py\<close>) is not
  among the sources. By the sink contract its step trigger, epoch trigger and teardown
  hooks are no-ops unless a class overrides them; \<^verbatim>\<open>NoOpMonitor\<close> overrides none.
\<close>

definition Callback_trigger_step :: "monitor \<Rightarrow> error option \<times> monitor" where
  "Callback_trigger_step m = (None, m)"

definition Callback_trigger_epoch :: "monitor \<Rightarrow> error option \<times> monitor" where
  "Callback_trigger_epoch m = (None, m)"

definition Callback_after_train :: "monitor \<Rightarrow> error option \<times> monitor" where
  "Callback_after_train m = (None, m)"

text \<open>\<^verbatim>\<open>_push\<close> as a method call on a \<^verbatim>\<open>JSONWriter\<close> object.\<close>

definition monitor_push :: "counters \<Rightarrow> bool \<Rightarrow> monitor \<Rightarrow> error option \<times> monitor" where
  "monitor_push c io_ok m =
     (case m of
        JSONWriter t (Some w) \<Rightarrow> (None, JSONWriter t (Some (JSONWriter_push c io_ok w)))
      | _ \<Rightarrow> (Some AttributeError, m))"

section \<open>\<^verbatim>\<open>Monitors\<close>\<close>

text \<open>
  The hub. \<^verbatim>\<open>_monitors\<close> is \<^verbatim>\<open>monitors + [self._scalar_history]\<close>: the caller's
  monitors followed by the hub's own store, which \<^verbatim>\<open>_scalar_history\<close> names as well.
  The record keeps the store once, and the loops over \<^verbatim>\<open>_monitors\<close> visit the caller's
  monitors and then the store.
\<close>

record Monitors =
  hub_trainer :: "trainer option"
  scalar_history :: ScalarHistory
  monitors :: "monitor list"

definition Monitors_init :: "monitor list \<Rightarrow> Monitors" where
  "Monitors_init ms =
     \<lparr>hub_trainer = None, scalar_history = \<lparr>history_trainer = None, dic = None\<rparr>, monitors = ms\<rparr>"

text \<open>
  A method call the hub makes on one of \<^verbatim>\<open>_monitors\<close>, and the calls of one hub
  operation in the order they are made, each with the position of its receiver in
  \<^verbatim>\<open>_monitors\<close>.
\<close>

datatype call =
    setup_graph_call trainer
  | put_summary_call summary
  | put_scalar_call string pyval

type_synonym trace = "(nat \<times> call) list"

text \<open>
  \<^verbatim>\<open>for m in ...: m.method(...)\<close> over the caller's monitors, from position \<^verbatim>\<open>i\<close>:
  an exception ends the loop and leaves the remaining monitors untouched.
\<close>

fun for_each ::
  "(monitor \<Rightarrow> error option \<times> monitor) \<Rightarrow> call \<Rightarrow> nat \<Rightarrow> monitor list
     \<Rightarrow> error option \<times> trace \<times> monitor list" where
  "for_each f cl i [] = (None, [], [])"
| "for_each f cl i (m # ms) =
     (case f m of
        (Some e, m') \<Rightarrow> (Some e, [(i, cl)], m' # ms)
      | (None, m') \<Rightarrow>
          (case for_each f cl (Suc i) ms of (r, t, ms') \<Rightarrow> (r, (i, cl) # t, m' # ms')))"

text \<open>\<^verbatim>\<open>_dispatch_put_summary\<close>; the store inherits \<^verbatim>\<open>TrainingMonitor.put_summary\<close>.\<close>

definition Monitors_dispatch_put_summary ::
  "counters \<Rightarrow> summary \<Rightarrow> Monitors \<Rightarrow> error option \<times> trace \<times> Monitors" where
  "Monitors_dispatch_put_summary c s h =
     (case for_each (monitor_put_summary c s) (put_summary_call s) 0 (monitors h) of
        (Some e, t, ms) \<Rightarrow> (Some e, t, h\<lparr>monitors := ms\<rparr>)
      | (None, t, ms) \<Rightarrow> (None, t @ [(length ms, put_summary_call s)], h\<lparr>monitors := ms\<rparr>))"

text \<open>\<^verbatim>\<open>_dispatch_put_scalar\<close>.\<close>

definition Monitors_dispatch_put_scalar ::
  "string \<Rightarrow> pyval \<Rightarrow> Monitors \<Rightarrow> error option \<times> trace \<times> Monitors" where
  "Monitors_dispatch_put_scalar name val h =
     (case for_each (monitor_put_scalar name val) (put_scalar_call name val) 0 (monitors h) of
        (Some e, t, ms) \<Rightarrow> (Some e, t, h\<lparr>monitors := ms\<rparr>)
      | (None, t, ms) \<Rightarrow>
          (case ScalarHistory_put_scalar name val (scalar_history h) of
             (r, sh) \<Rightarrow>
               (r, t @ [(length ms, put_scalar_call name val)],
                h\<lparr>monitors := ms, scalar_history := sh\<rparr>)))"

text \<open>
  \<^verbatim>\<open>Monitors.put_scalar\<close>. \<^verbatim>\<open>s.value.add(tag=name, simple_value=val)\<close> takes a
  number, converts it as \<^verbatim>\<open>float\<close> does (raising where that raises) and stores it in
  single precision.
\<close>

definition Monitors_put_scalar ::
  "counters \<Rightarrow> string \<Rightarrow> pyval \<Rightarrow> Monitors \<Rightarrow> error option \<times> trace \<times> Monitors" where
  "Monitors_put_scalar c name val h =
     (case Monitors_dispatch_put_scalar name val h of
        (Some e, t, h1) \<Rightarrow> (Some e, t, h1)
      | (None, t, h1) \<Rightarrow>
          (case py_float val of
             Inl e \<Rightarrow> (Some e, t, h1)
           | Inr x \<Rightarrow>
               (case Monitors_dispatch_put_summary c [(name, simple_value (to_float32 x))] h1 of
                  (r, t2, h2) \<Rightarrow> (r, t @ t2, h2))))"

text \<open>\<^verbatim>\<open>Monitors.put\<close>.\<close>

definition Monitors_put ::
  "counters \<Rightarrow> string \<Rightarrow> pyval \<Rightarrow> Monitors \<Rightarrow> error option \<times> trace \<times> Monitors" where
  "Monitors_put c name val h =
     (case py_float val of
        Inl e \<Rightarrow> (Some e, [], h)
      | Inr x \<Rightarrow> Monitors_put_scalar c name (PyFloat x) h)"



text \<open>
  \<^verbatim>\<open>TrainingMonitor.setup_graph\<close> on the hub, with \<^verbatim>\<open>Monitors._setup_graph\<close>: the one
  call it makes is \<^verbatim>\<open>self._scalar_history.setup_graph(self.trainer)\<close>.
\<close>

definition Monitors_setup_graph :: "trainer \<Rightarrow> Monitors \<Rightarrow> error option \<times> trace \<times> Monitors" where
  "Monitors_setup_graph tr h =
     (None, [(length (monitors h), setup_graph_call tr)],
      h\<lparr>hub_trainer := Some tr,
        scalar_history := ScalarHistory_setup_graph tr (scalar_history h)\<rparr>)"

definition Monitors_get_latest :: "string \<Rightarrow> Monitors \<Rightarrow> (error + pyfloat) \<times> Monitors" where
  "Monitors_get_latest name h =
     (case ScalarHistory_get_latest name (scalar_history h) of
        (r, sh) \<Rightarrow> (r, h\<lparr>scalar_history := sh\<rparr>))"

definition Monitors_get_history :: "string \<Rightarrow> Monitors \<Rightarrow> (error + pyfloat list) \<times> Monitors" where
  "Monitors_get_history name h =
     (case ScalarHistory_get_history name (scalar_history h) of
        (r, sh) \<Rightarrow> (r, h\<lparr>scalar_history := sh\<rparr>))"

section \<open>Vocabulary of the properties\<close>

text \<open>A call on the store, as a client of \<^verbatim>\<open>ScalarHistory\<close> makes them one after another.\<close>

datatype store_call = record_call string pyval | latest_call string | history_call string

fun store_step :: "store_call \<Rightarrow> ScalarHistory \<Rightarrow> ScalarHistory" where
  "store_step (record_call n v) h = snd (ScalarHistory_put_scalar n v h)"
| "store_step (latest_call n) h = snd (ScalarHistory_get_latest n h)"
| "store_step (history_call n) h = snd (ScalarHistory_get_history n h)"

fun run_calls :: "store_call list \<Rightarrow> ScalarHistory \<Rightarrow> ScalarHistory" where
  "run_calls [] h = h"
| "run_calls (cl # cls) h = run_calls cls (store_step cl h)"

text \<open>The values recorded for a name by a sequence of calls: those that \<^verbatim>\<open>float\<close> accepted.\<close>

fun recorded :: "string \<Rightarrow> store_call list \<Rightarrow> pyfloat list" where
  "recorded name [] = []"
| "recorded name (record_call n v # cls) =
     (case py_float v of
        Inr x \<Rightarrow> (if n = name then x # recorded name cls else recorded name cls)
      | Inl e \<Rightarrow> recorded name cls)"
| "recorded name (cl # cls) = recorded name cls"

text \<open>A monitor whose \<^verbatim>\<open>_setup_graph\<close> has run, so that its attributes exist.\<close>

fun is_setup :: "monitor \<Rightarrow> bool" where
  "is_setup (NoOpMonitor t) = True"
| "is_setup (TFSummaryWriter t w) = (w \<noteq> None)"
| "is_setup (JSONWriter t w) = (w \<noteq> None)"
| "is_setup (ScalarPrinter cfg t p) = (p \<noteq> None)"

text \<open>The calls of one loop over \<^verbatim>\<open>_monitors\<close> when \<^verbatim>\<open>n\<close> monitors were registered.\<close>

definition fan_out :: "nat \<Rightarrow> call \<Rightarrow> trace" where
  "fan_out n cl = map (\<lambda>i. (i, cl)) [0..<Suc n]"



text \<open>The history a \<^verbatim>\<open>defaultdict(list)\<close> holds for a name: empty for a missing key.\<close>

definition hist_of :: "history_dic \<Rightarrow> string \<Rightarrow> pyfloat list" where
  "hist_of d name = (case map_of d name of None \<Rightarrow> [] | Some xs \<Rightarrow> xs)"

text \<open>
  A hub whose store and whose registered monitors have all been set up: the state in
  which the training loop pushes data.
\<close>

definition hub_ready :: "Monitors \<Rightarrow> bool" where
  "hub_ready h = (list_all is_setup (monitors h) \<and> dic (scalar_history h) \<noteq> None)"

text \<open>The calls that the monitor at position \<^verbatim>\<open>i\<close> of \<^verbatim>\<open>_monitors\<close> receives, in order.\<close>

definition calls_of :: "nat \<Rightarrow> trace \<Rightarrow> call list" where
  "calls_of i t = map snd (filter (\<lambda>e. fst e = i) t)"


text \<open>Concrete objects for the examples: a writer that was just set up, counters, a hub.\<close>

definition example_writer :: json_writer where
  "example_writer =
     \<lparr>stats = [], stat_now = [], last_gs = - 1, total = 2, stat_json = no_file, logged = 0\<rparr>"

definition example_counters :: counters where
  "example_counters = \<lparr>local_step = 1, epoch_num = 1, global_step = 2\<rparr>"

definition example_trainer :: trainer where
  "example_trainer = \<lparr>steps_per_epoch = 2\<rparr>"

definition example_hub :: Monitors where
  "example_hub =
     \<lparr>hub_trainer = Some example_trainer,
      scalar_history = \<lparr>history_trainer = Some example_trainer, dic = Some []\<rparr>,
      monitors = [NoOpMonitor None, JSONWriter (Some example_trainer) (Some example_writer)]\<rparr>"


section \<open>The tag normalisation removes every tower segment\<close>


















section \<open>Coercion to float\<close>

lemma bit_length_le: "a < 2 ^ k \<Longrightarrow> bit_length a \<le> k"
proof (induction k arbitrary: a)
  case 0
  then show ?case
    by (simp add: bit_length.simps)
next
  case (Suc k)
  from Suc.prems have "a div 2 < 2 ^ k"
    by simp
  from Suc.IH [OF this] show ?case
    by (subst bit_length.simps) simp
qed

lemma bit_length_gt: "2 ^ k \<le> a \<Longrightarrow> k < bit_length a"
proof (induction k arbitrary: a)
  case 0
  then show ?case
    by (subst bit_length.simps) simp
next
  case (Suc k)
  from Suc.prems have "2 ^ k \<le> a div 2"
    by simp
  moreover have "(0::int) < 2 ^ Suc k"
    by simp
  with Suc.prems have "0 < a"
    by linarith
  ultimately show ?case
    using Suc.IH [of "a div 2"] by (subst bit_length.simps) simp
qed

lemma bit_length_lower: "0 < a \<Longrightarrow> 2 ^ (bit_length a - 1) \<le> a"
proof (induction a rule: bit_length.induct)
  case (1 a)
  show ?case
  proof (cases "a div 2 \<le> 0")
    case True
    with "1.prems" have "bit_length a = 1"
      by (subst bit_length.simps, subst bit_length.simps) simp
    with "1.prems" show ?thesis
      by simp
  next
    case False
    then have pos: "0 < a div 2"
      by simp
    with "1.IH" "1.prems" have ih: "2 ^ (bit_length (a div 2) - 1) \<le> a div 2"
      by simp
    from pos bit_length_gt [of 0 "a div 2"] have "0 < bit_length (a div 2)"
      by simp
    then have "(2::int) ^ bit_length (a div 2) = 2 * 2 ^ (bit_length (a div 2) - 1)"
      by (cases "bit_length (a div 2)") simp_all
    also from ih have "\<dots> \<le> 2 * (a div 2)"
      by simp
    also have "\<dots> \<le> a"
      by simp
    finally have "2 ^ bit_length (a div 2) \<le> a" .
    with "1.prems" show ?thesis
      by (subst bit_length.simps) simp
  qed
qed

lemma round_half_even_ge_floor: "\<lfloor>y\<rfloor> \<le> round_half_even y"
  by (simp add: round_half_even_def Let_def)

text \<open>An int of at most 53 bits is converted exactly.\<close>

lemma int_to_float64_small: "\<bar>i\<bar> < 2 ^ 53 \<Longrightarrow> int_to_float64 i = Inr (Finite (of_int i))"
  using bit_length_le [of "\<bar>i\<bar>" 53] by (simp add: int_to_float64_def Let_def)

text \<open>An int of magnitude \<^verbatim>\<open>2^1024\<close> or more has no double.\<close>

lemma int_to_float64_overflow:
  assumes big: "2 ^ 1024 \<le> \<bar>i\<bar>"
  shows "int_to_float64 i = Inl OverflowError"
proof -
  define a where "a = \<bar>i\<bar>"
  define n where "n = bit_length a"
  define q :: int where "q = 2 ^ (n - 53)"
  from big bit_length_gt [of 1024 a] have n: "1024 < n"
    by (simp add: a_def n_def)
  from big have "0 < a"
    by (simp add: a_def)
  from bit_length_lower [OF this] have low: "2 ^ (n - 1) \<le> a"
    by (simp add: n_def)
  from n have "n - 1 = 52 + (n - 53)"
    by simp
  then have split: "(2::int) ^ (n - 1) = 2 ^ 52 * q"
    by (simp only: power_add q_def)
  have qpos: "0 < q"
    by (simp add: q_def)
  from low split have "2 ^ 52 * q \<le> a"
    by simp
  then have "real_of_int (2 ^ 52 * q) \<le> real_of_int a"
    by (simp only: of_int_le_iff)
  with qpos have "real_of_int (2 ^ 52) \<le> real_of_int a / real_of_int q"
    by (simp add: pos_le_divide_eq)
  then have "2 ^ 52 \<le> \<lfloor>real_of_int a / real_of_int q\<rfloor>"
    by (simp only: le_floor_iff)
  with round_half_even_ge_floor [of "real_of_int a / real_of_int q"]
  have "2 ^ 52 \<le> round_half_even (real_of_int a / real_of_int q)"
    by linarith
  with qpos have up: "2 ^ 52 * q \<le> round_half_even (real_of_int a / real_of_int q) * q"
    by (intro mult_right_mono) simp_all
  from n have "(2::int) ^ 1024 \<le> 2 ^ (n - 1)"
    by (intro power_increasing) simp_all
  also have "\<dots> = 2 ^ 52 * q"
    by (rule split)
  also note up
  finally have r: "2 ^ 1024 \<le> round_half_even (real_of_int a / real_of_int q) * q" .
  from n have "\<not> n \<le> 53"
    by simp
  with r show ?thesis
    by (simp add: int_to_float64_def Let_def a_def [symmetric] n_def [symmetric] q_def [symmetric])
qed

section \<open>The scalar history\<close>

lemma getitem_fst: "fst (defaultdict_getitem d n) = hist_of d n"
  by (simp add: defaultdict_getitem_def hist_of_def split: option.splits)

lemma getitem_snd: "hist_of (snd (defaultdict_getitem d n)) k = hist_of d k"
  by (auto simp: defaultdict_getitem_def hist_of_def map_add_def split: option.splits)

lemma hist_of_update: "hist_of (AList.update n v d) k = (if k = n then v else hist_of d k)"
  by (simp add: hist_of_def update_conv')

lemma put_scalar_dic:
  assumes "dic h = Some d"
  shows "\<exists>d'. dic (snd (ScalarHistory_put_scalar n v h)) = Some d' \<and>
           hist_of d' name = hist_of d name @ recorded name [record_call n v]"
proof (cases "defaultdict_getitem d n")
  case (Pair hist d1)
  with getitem_fst [of d n] getitem_snd [of d n] have h: "hist = hist_of d n" and d1: "\<And>k. hist_of d1 k = hist_of d k"
    by simp_all
  show ?thesis
    using assms Pair h d1
    by (cases "py_float v") (auto simp: ScalarHistory_put_scalar_def hist_of_update)
qed

lemma get_latest_dic:
  assumes "dic h = Some d"
  shows "\<exists>d'. dic (snd (ScalarHistory_get_latest n h)) = Some d' \<and> hist_of d' name = hist_of d name"
proof (cases "defaultdict_getitem d n")
  case (Pair hist d1)
  with getitem_snd [of d n] have "\<And>k. hist_of d1 k = hist_of d k"
    by simp
  with assms Pair show ?thesis
    by (simp add: ScalarHistory_get_latest_def)
qed

lemma get_history_dic:
  assumes "dic h = Some d"
  shows "\<exists>d'. dic (snd (ScalarHistory_get_history n h)) = Some d' \<and> hist_of d' name = hist_of d name"
proof (cases "defaultdict_getitem d n")
  case (Pair hist d1)
  with getitem_snd [of d n] have "\<And>k. hist_of d1 k = hist_of d k"
    by simp
  with assms Pair show ?thesis
    by (simp add: ScalarHistory_get_history_def)
qed

lemma recorded_Cons: "recorded name (cl # cls) = recorded name [cl] @ recorded name cls"
  by (cases cl) (auto split: sum.splits)

lemma store_step_dic:
  assumes "dic h = Some d"
  shows "\<exists>d'. dic (store_step cl h) = Some d' \<and> hist_of d' name = hist_of d name @ recorded name [cl]"
proof (cases cl)
  case (record_call n v)
  with put_scalar_dic [OF assms, of n v name] show ?thesis
    by simp
next
  case (latest_call n)
  with get_latest_dic [OF assms, of n name] show ?thesis
    by simp
next
  case (history_call n)
  with get_history_dic [OF assms, of n name] show ?thesis
    by simp
qed

lemma run_calls_dic:
  "dic h = Some d \<Longrightarrow>
     \<exists>d'. dic (run_calls cls h) = Some d' \<and> hist_of d' name = hist_of d name @ recorded name cls"
proof (induction cls arbitrary: h d)
  case Nil
  then show ?case
    by simp
next
  case (Cons cl cls)
  from store_step_dic [OF Cons.prems, of cl name] obtain d1
    where d1: "dic (store_step cl h) = Some d1"
      and h1: "hist_of d1 name = hist_of d name @ recorded name [cl]"
    by blast
  from Cons.IH [OF d1] obtain d2
    where "dic (run_calls cls (store_step cl h)) = Some d2"
      and "hist_of d2 name = hist_of d1 name @ recorded name cls"
    by blast
  with h1 show ?case
    by (simp add: recorded_Cons [of name cl cls])
qed

lemma get_history_value:
  "dic h = Some d \<Longrightarrow> fst (ScalarHistory_get_history name h) = Inr (hist_of d name)"
  using getitem_fst [of d name]
  by (cases "defaultdict_getitem d name") (simp add: ScalarHistory_get_history_def)

lemma get_latest_value:
  "dic h = Some d \<Longrightarrow>
     fst (ScalarHistory_get_latest name h) =
       (if hist_of d name = [] then Inl (KeyError name) else Inr (last (hist_of d name)))"
  using getitem_fst [of d name]
  by (cases "defaultdict_getitem d name") (simp add: ScalarHistory_get_latest_def)

lemma recorded_floats: "recorded name (map (\<lambda>x. record_call name (PyFloat x)) xs) = xs"
  by (induction xs) simp_all

lemma setup_dic: "dic (ScalarHistory_setup_graph tr h) = Some []"
  by (simp add: ScalarHistory_setup_graph_def)

text \<open>
  Claim C3. After any sequence of calls on a store that has been set up, \<^verbatim>\<open>get_history\<close>
  of a name returns exactly the values recorded for that name, in call order; a sequence
  of records \<^verbatim>\<open>x1, x2, ...\<close> for one name is read back as \<^verbatim>\<open>[x1, x2, ...]\<close>; and a
  name nothing was recorded for has the empty history, without an error.
\<close>

theorem history_is_append_only:
  "fst (ScalarHistory_get_history name (run_calls cls (ScalarHistory_setup_graph tr h0)))
     = Inr (recorded name cls)
   \<and> fst (ScalarHistory_get_history name
        (run_calls (map (\<lambda>x. record_call name (PyFloat x)) xs) (ScalarHistory_setup_graph tr h0)))
     = Inr xs
   \<and> fst (ScalarHistory_get_history name (ScalarHistory_setup_graph tr h0)) = Inr []"
proof -
  have gen: "fst (ScalarHistory_get_history name (run_calls cls' (ScalarHistory_setup_graph tr h0)))
           = Inr (recorded name cls')" for cls'
  proof -
    from run_calls_dic [OF setup_dic, of cls' tr h0 name] obtain d'
      where "dic (run_calls cls' (ScalarHistory_setup_graph tr h0)) = Some d'"
        and "hist_of d' name = recorded name cls'"
      by (auto simp: hist_of_def)
    then show ?thesis
      by (simp add: get_history_value)
  qed
  from gen [of cls] gen [of "map (\<lambda>x. record_call name (PyFloat x)) xs"] gen [of "[]"]
  show ?thesis
    by (simp add: recorded_floats)
qed

text \<open>
  Claim C2. In every state of the store \<^verbatim>\<open>get_latest\<close> returns the last element of what
  \<^verbatim>\<open>get_history\<close> returns when that is not empty and raises \<^verbatim>\<open>KeyError\<close> when it is;
  after any sequence of calls on a store that has been set up it returns the value
  recorded last for the name and raises \<^verbatim>\<open>KeyError\<close> when none was, also when the series
  was created by a query and never written.
\<close>

theorem latest_is_last_or_KeyError:
  "fst (ScalarHistory_get_latest name h) =
     (case fst (ScalarHistory_get_history name h) of
        Inl e \<Rightarrow> Inl e
      | Inr [] \<Rightarrow> Inl (KeyError name)
      | Inr (x # xs) \<Rightarrow> Inr (last (x # xs)))
   \<and> fst (ScalarHistory_get_latest name (run_calls cls (ScalarHistory_setup_graph tr h0))) =
     (if recorded name cls = [] then Inl (KeyError name) else Inr (last (recorded name cls)))
   \<and> fst (ScalarHistory_get_latest name
        (snd (ScalarHistory_get_history name (ScalarHistory_setup_graph tr h0))))
     = Inl (KeyError name)"
proof -
  have a: "fst (ScalarHistory_get_latest name h) =
     (case fst (ScalarHistory_get_history name h) of
        Inl e \<Rightarrow> Inl e
      | Inr [] \<Rightarrow> Inl (KeyError name)
      | Inr (x # xs) \<Rightarrow> Inr (last (x # xs)))"
  proof (cases "dic h")
    case None
    then show ?thesis
      by (simp add: ScalarHistory_get_latest_def ScalarHistory_get_history_def)
  next
    case (Some d)
    then show ?thesis
      by (simp add: get_latest_value get_history_value split: list.splits)
  qed
  have gen: "fst (ScalarHistory_get_latest name (run_calls cls' (ScalarHistory_setup_graph tr h0))) =
     (if recorded name cls' = [] then Inl (KeyError name) else Inr (last (recorded name cls')))" for cls'
  proof -
    from run_calls_dic [OF setup_dic, of cls' tr h0 name] obtain d'
      where "dic (run_calls cls' (ScalarHistory_setup_graph tr h0)) = Some d'"
        and "hist_of d' name = recorded name cls'"
      by (auto simp: hist_of_def)
    then show ?thesis
      by (simp add: get_latest_value)
  qed
  from gen [of "[history_call name]"] have c: "fst (ScalarHistory_get_latest name
        (snd (ScalarHistory_get_history name (ScalarHistory_setup_graph tr h0))))
     = Inl (KeyError name)"
    by simp
  from a gen [of cls] c show ?thesis
    by blast
qed

section \<open>The JSON writer's flush\<close>

lemma push_empty: "stat_now w = [] \<Longrightarrow> JSONWriter_push c io_ok w = w"
  by (simp add: JSONWriter_push_def)

lemma write_stat_now: "stat_now (JSONWriter_write_stat io_ok w) = stat_now w"
  by (simp add: JSONWriter_write_stat_def)

lemma push_clears: "stat_now (JSONWriter_push c io_ok w) = []"
  by (simp add: JSONWriter_push_def Let_def write_stat_now)

lemma push_twice: "JSONWriter_push c2 io2 (JSONWriter_push c1 io1 w) = JSONWriter_push c1 io1 w"
  by (rule push_empty) (rule push_clears)

lemma push_nonempty:
  "stat_now w \<noteq> [] \<Longrightarrow>
     JSONWriter_push c io_ok w =
       (let r = AList.update ''global_step'' (PyInt (global_step c))
                  (AList.update ''epoch_num'' (PyInt (epoch_num c)) (stat_now w))
        in if io_ok
           then w\<lparr>stats := stats w @ [r], stat_now := [], stat_json := json_rows (stats w @ [r])\<rparr>
           else w\<lparr>stats := stats w @ [r], stat_now := [], logged := Suc (logged w)\<rparr>)"
  by (simp add: JSONWriter_push_def JSONWriter_write_stat_def Let_def)

lemma monitor_push_twice:
  "monitor_push c2 io2 (snd (monitor_push c1 io1 m)) = monitor_push c1 io1 m"
proof (cases m)
  case (JSONWriter t w)
  then show ?thesis
    by (cases w) (simp_all add: monitor_push_def push_twice)
qed (simp_all add: monitor_push_def)

text \<open>
  Claim C7. \<^verbatim>\<open>JSONWriter._push\<close> with an empty pending row changes nothing; a second
  \<^verbatim>\<open>_push\<close> right after a first, whatever the counters and the disk do, leaves the rows,
  the pending row and the file as the first left them (on the attributes and as a method
  call on any monitor object); and with a non-empty pending row it stamps the row with
  \<^verbatim>\<open>epoch_num\<close> and \<^verbatim>\<open>global_step\<close>, appends it, clears the pending row, and writes
  all rows to the file when the disk allows.
\<close>

theorem push_is_idempotent:
  "(stat_now w = [] \<longrightarrow> JSONWriter_push c io_ok w = w)
   \<and> JSONWriter_push c2 io2 (JSONWriter_push c io_ok w) = JSONWriter_push c io_ok w
   \<and> monitor_push c2 io2 (snd (monitor_push c io_ok m)) = monitor_push c io_ok m
   \<and> (stat_now w \<noteq> [] \<longrightarrow>
        JSONWriter_push c io_ok w =
          (let r = AList.update ''global_step'' (PyInt (global_step c))
                     (AList.update ''epoch_num'' (PyInt (epoch_num c)) (stat_now w))
           in if io_ok
              then w\<lparr>stats := stats w @ [r], stat_now := [],
                      stat_json := json_rows (stats w @ [r])\<rparr>
              else w\<lparr>stats := stats w @ [r], stat_now := [], logged := Suc (logged w)\<rparr>))"
  using push_empty [of w c io_ok] push_twice [of c2 io2 c io_ok w]
    monitor_push_twice [of c2 io2 c io_ok m] push_nonempty [of w c io_ok]
  by blast

theorem push_is_idempotent_witness:
  "stat_now (example_writer\<lparr>stat_now := [(''loss'', PyFloat (Finite 0.25))]\<rparr>) \<noteq> []
   \<and> stat_now example_writer = []
   \<and> JSONWriter_push example_counters True example_writer = example_writer
   \<and> JSONWriter_push example_counters True (example_writer\<lparr>stat_now := [(''loss'', PyFloat (Finite 0.25))]\<rparr>)
       = example_writer\<lparr>stats := [[(''loss'', PyFloat (Finite 0.25)), (''epoch_num'', PyInt 1), (''global_step'', PyInt 2)]],
             stat_json := json_rows [[(''loss'', PyFloat (Finite 0.25)), (''epoch_num'', PyInt 1), (''global_step'', PyInt 2)]]\<rparr>
   \<and> JSONWriter_push example_counters True (JSONWriter_push example_counters True (example_writer\<lparr>stat_now := [(''loss'', PyFloat (Finite 0.25))]\<rparr>))
       = JSONWriter_push example_counters True (example_writer\<lparr>stat_now := [(''loss'', PyFloat (Finite 0.25))]\<rparr>)"
proof -
  let ?w1 = "example_writer\<lparr>stat_now := [(''loss'', PyFloat (Finite 0.25))]\<rparr>"
  note a = push_is_idempotent [of example_writer example_counters True example_counters True "NoOpMonitor None"]
  note b = push_is_idempotent [of ?w1 example_counters True example_counters True "NoOpMonitor None"]
  have e: "stat_now example_writer = []"
    by (simp add: example_writer_def)
  have n: "stat_now ?w1 \<noteq> []"
    by simp
  from a e have 1: "JSONWriter_push example_counters True example_writer = example_writer"
    by blast
  from b n have "JSONWriter_push example_counters True ?w1 =
          (let r = AList.update ''global_step'' (PyInt (global_step example_counters))
                     (AList.update ''epoch_num'' (PyInt (epoch_num example_counters)) (stat_now ?w1))
           in if True
              then ?w1\<lparr>stats := stats ?w1 @ [r], stat_now := [],
                      stat_json := json_rows (stats ?w1 @ [r])\<rparr>
              else ?w1\<lparr>stats := stats ?w1 @ [r], stat_now := [], logged := Suc (logged ?w1)\<rparr>)"
    by blast
  then have 2: "JSONWriter_push example_counters True ?w1
       = example_writer\<lparr>stats := [[(''loss'', PyFloat (Finite 0.25)), (''epoch_num'', PyInt 1), (''global_step'', PyInt 2)]],
             stat_json := json_rows [[(''loss'', PyFloat (Finite 0.25)), (''epoch_num'', PyInt 1), (''global_step'', PyInt 2)]]\<rparr>"
    by (simp add: example_writer_def example_counters_def Let_def)
  from b have 3: "JSONWriter_push example_counters True (JSONWriter_push example_counters True ?w1) = JSONWriter_push example_counters True ?w1"
    by blast
  from e n 1 2 3 show ?thesis
    by (intro conjI)
qed

lemma map_of_stamp:
  "map_of (AList.update ''global_step'' g (AList.update ''epoch_num'' e r)) k =
     (if k = ''global_step'' then Some g else if k = ''epoch_num'' then Some e else map_of r k)"
  by (simp add: update_conv')

lemma put_scalar_json:
  "py_float v = Inr x \<Longrightarrow>
     JSONWriter_put_scalar name v (Some w)
       = (None, Some (w\<lparr>stat_now := AList.update name (PyFloat x) (stat_now w)\<rparr>))"
  by (simp add: JSONWriter_put_scalar_def)


text \<open>
  Claim C10. A non-empty flush appends one row in which \<^verbatim>\<open>epoch_num\<close> and
  \<^verbatim>\<open>global_step\<close> are the counters and every other key is as in the pending row; so after
  \<^verbatim>\<open>put_scalar\<close> under any name, \<^verbatim>\<open>epoch_num\<close> or \<^verbatim>\<open>global_step\<close> included, the pending
  row holds the scalar and the appended row holds the counters under the reserved keys.
\<close>

theorem counters_overwrite_reserved_keys:
  "(stat_now w \<noteq> [] \<longrightarrow>
      (\<exists>r. stats (JSONWriter_push c io_ok w) = stats w @ [r]
         \<and> map_of r ''epoch_num'' = Some (PyInt (epoch_num c))
         \<and> map_of r ''global_step'' = Some (PyInt (global_step c))
         \<and> map_of r k =
             (if k = ''global_step'' then Some (PyInt (global_step c))
              else if k = ''epoch_num'' then Some (PyInt (epoch_num c))
              else map_of (stat_now w) k)))
   \<and> (py_float v = Inr x \<longrightarrow>
      (\<exists>w1 r. JSONWriter_put_scalar name v (Some w) = (None, Some w1)
         \<and> map_of (stat_now w1) name = Some (PyFloat x)
         \<and> stats (JSONWriter_push c io_ok w1) = stats w @ [r]
         \<and> map_of r ''epoch_num'' = Some (PyInt (epoch_num c))
         \<and> map_of r ''global_step'' = Some (PyInt (global_step c))))"
proof (intro conjI impI)
  assume "stat_now w \<noteq> []"
  then show "\<exists>r. stats (JSONWriter_push c io_ok w) = stats w @ [r]
         \<and> map_of r ''epoch_num'' = Some (PyInt (epoch_num c))
         \<and> map_of r ''global_step'' = Some (PyInt (global_step c))
         \<and> map_of r k =
             (if k = ''global_step'' then Some (PyInt (global_step c))
              else if k = ''epoch_num'' then Some (PyInt (epoch_num c))
              else map_of (stat_now w) k)"
    by (cases io_ok) (simp_all add: push_nonempty Let_def map_of_stamp del: AList.update.simps)
next
  assume v: "py_float v = Inr x"
  let ?w1 = "w\<lparr>stat_now := AList.update name (PyFloat x) (stat_now w)\<rparr>"
  have ne: "stat_now ?w1 \<noteq> []"
    by simp
  have "map_of (stat_now ?w1) name = Some (PyFloat x)"
    by (simp add: update_conv')
  moreover have "\<exists>r. stats (JSONWriter_push c io_ok ?w1) = stats w @ [r]
         \<and> map_of r ''epoch_num'' = Some (PyInt (epoch_num c))
         \<and> map_of r ''global_step'' = Some (PyInt (global_step c))"
    using ne
    by (cases io_ok) (simp_all add: push_nonempty Let_def map_of_stamp del: AList.update.simps)
  ultimately show "\<exists>w1 r. JSONWriter_put_scalar name v (Some w) = (None, Some w1)
         \<and> map_of (stat_now w1) name = Some (PyFloat x)
         \<and> stats (JSONWriter_push c io_ok w1) = stats w @ [r]
         \<and> map_of r ''epoch_num'' = Some (PyInt (epoch_num c))
         \<and> map_of r ''global_step'' = Some (PyInt (global_step c))"
    unfolding put_scalar_json [OF v] by blast
qed

theorem counters_overwrite_reserved_keys_witness:
  "py_float (PyInt 7) = Inr (Finite 7)
   \<and> (\<exists>w1 r. JSONWriter_put_scalar ''epoch_num'' (PyInt 7) (Some example_writer) = (None, Some w1)
         \<and> map_of (stat_now w1) ''epoch_num'' = Some (PyFloat (Finite 7))
         \<and> stats (JSONWriter_push example_counters True w1) = [r]
         \<and> map_of r ''epoch_num'' = Some (PyInt 1)
         \<and> map_of r ''global_step'' = Some (PyInt 2))"
proof -
  have v: "py_float (PyInt 7) = Inr (Finite 7)"
    using int_to_float64_small [of 7] by simp
  from counters_overwrite_reserved_keys [of example_writer example_counters True "''loss''" "PyInt 7" "Finite 7" "''epoch_num''"] v
  obtain w1 r where "JSONWriter_put_scalar ''epoch_num'' (PyInt 7) (Some example_writer) = (None, Some w1)"
    and "map_of (stat_now w1) ''epoch_num'' = Some (PyFloat (Finite 7))"
    and "stats (JSONWriter_push example_counters True w1) = stats example_writer @ [r]"
    and "map_of r ''epoch_num'' = Some (PyInt (epoch_num example_counters))"
    and "map_of r ''global_step'' = Some (PyInt (global_step example_counters))"
    by blast
  then have "JSONWriter_put_scalar ''epoch_num'' (PyInt 7) (Some example_writer) = (None, Some w1)
         \<and> map_of (stat_now w1) ''epoch_num'' = Some (PyFloat (Finite 7))
         \<and> stats (JSONWriter_push example_counters True w1) = [r]
         \<and> map_of r ''epoch_num'' = Some (PyInt 1)
         \<and> map_of r ''global_step'' = Some (PyInt 2)"
    by (simp add: example_counters_def example_writer_def)
  with v show ?thesis
    by blast
qed

section \<open>The fan-out of the hub\<close>

lemma monitor_put_scalar_ok:
  "is_setup m \<Longrightarrow> py_float v = Inr x \<Longrightarrow>
     fst (monitor_put_scalar n v m) = None \<and> is_setup (snd (monitor_put_scalar n v m))"
  by (cases m)
    (auto simp: monitor_put_scalar_def TrainingMonitor_put_scalar_def TrainingMonitor_put_def
       JSONWriter_put_scalar_def ScalarPrinter_put_scalar_def)

lemma monitor_put_summary_ok:
  "is_setup m \<Longrightarrow>
     fst (monitor_put_summary c s m) = None \<and> is_setup (snd (monitor_put_summary c s m))"
  by (cases m)
    (auto simp: monitor_put_summary_def TrainingMonitor_put_summary_def
       TFSummaryWriter_put_summary_def)

text \<open>
  A loop over monitors none of which raises: every monitor is replaced by what its own
  method leaves, and the calls are one per position.
\<close>

lemma for_each_ok:
  assumes f: "\<And>m. is_setup m \<Longrightarrow> fst (f m) = None \<and> is_setup (snd (f m))"
  shows "list_all is_setup ms \<Longrightarrow>
     for_each f cl i ms
       = (None, map (\<lambda>j. (j, cl)) [i..<i + length ms], map (\<lambda>m. snd (f m)) ms)
     \<and> list_all is_setup (map (\<lambda>m. snd (f m)) ms)"
proof (induction ms arbitrary: i)
  case Nil
  then show ?case
    by simp
next
  case (Cons m ms)
  from Cons.prems have m: "is_setup m" and ms: "list_all is_setup ms"
    by simp_all
  obtain m1 where fm: "f m = (None, m1)"
    using f [OF m] by (cases "f m") simp
  with f [OF m] have m1: "is_setup m1" "snd (f m) = m1"
    by simp_all
  from Cons.IH [OF ms, of "Suc i"]
  have rest: "for_each f cl (Suc i) ms
       = (None, map (\<lambda>j. (j, cl)) [Suc i..<Suc i + length ms], map (\<lambda>m. snd (f m)) ms)"
    and still: "list_all is_setup (map (\<lambda>m. snd (f m)) ms)"
    by simp_all
  have "[i..<i + length (m # ms)] = i # [Suc i..<i + length (m # ms)]"
    by (rule upt_conv_Cons) simp
  then have upt: "[i..<i + length (m # ms)] = i # [Suc i..<Suc i + length ms]"
    by simp
  show ?case
    unfolding upt by (simp add: fm rest m1 still)
qed

lemma fan_out_snoc: "fan_out n cl = map (\<lambda>j. (j, cl)) [0..<n] @ [(n, cl)]"
  by (simp add: fan_out_def)

lemma dispatch_put_scalar_state:
  assumes r: "hub_ready h" and v: "py_float v = Inr x"
  shows "Monitors_dispatch_put_scalar n v h
           = (None, fan_out (length (monitors h)) (put_scalar_call n v),
              h\<lparr>monitors := map (\<lambda>m. snd (monitor_put_scalar n v m)) (monitors h),
                scalar_history := snd (ScalarHistory_put_scalar n v (scalar_history h))\<rparr>)
         \<and> hub_ready
              (h\<lparr>monitors := map (\<lambda>m. snd (monitor_put_scalar n v m)) (monitors h),
                 scalar_history := snd (ScalarHistory_put_scalar n v (scalar_history h))\<rparr>)"
proof -
  from r have ms: "list_all is_setup (monitors h)"
    and d: "dic (scalar_history h) \<noteq> None"
    by (simp_all add: hub_ready_def)
  note fe = for_each_ok [of "monitor_put_scalar n v", OF monitor_put_scalar_ok [OF _ v] ms,
      of "put_scalar_call n v" 0]
  from d obtain d0 where d0: "dic (scalar_history h) = Some d0"
    by auto
  obtain hist d1 where g: "defaultdict_getitem d0 n = (hist, d1)"
    by (cases "defaultdict_getitem d0 n")
  from d0 g v have sh: "ScalarHistory_put_scalar n v (scalar_history h)
      = (None, (scalar_history h)\<lparr>dic := Some (AList.update n (hist @ [x]) d1)\<rparr>)"
    by (simp add: ScalarHistory_put_scalar_def)
  from fe sh show ?thesis
    by (simp add: Monitors_dispatch_put_scalar_def fan_out_snoc hub_ready_def)
qed

lemma dispatch_put_summary_state:
  assumes r: "hub_ready h"
  shows "Monitors_dispatch_put_summary c s h
           = (None, fan_out (length (monitors h)) (put_summary_call s),
              h\<lparr>monitors := map (\<lambda>m. snd (monitor_put_summary c s m)) (monitors h)\<rparr>)
         \<and> hub_ready (h\<lparr>monitors := map (\<lambda>m. snd (monitor_put_summary c s m)) (monitors h)\<rparr>)"
proof -
  from r have ms: "list_all is_setup (monitors h)"
    and d: "dic (scalar_history h) \<noteq> None"
    by (simp_all add: hub_ready_def)
  note fe = for_each_ok [of "monitor_put_summary c s", OF monitor_put_summary_ok ms,
      of "put_summary_call s" 0]
  from fe d show ?thesis
    by (simp add: Monitors_dispatch_put_summary_def fan_out_snoc hub_ready_def)
qed



text \<open>
  \<^verbatim>\<open>Monitors.put_scalar\<close> on a hub that has been set up: the calls, and the state in
  which every monitor has had its own \<^verbatim>\<open>put_scalar\<close> and then its own \<^verbatim>\<open>put_summary\<close>
  applied, once each.
\<close>

lemma put_scalar_state:
  assumes r: "hub_ready h" and v: "py_float v = Inr x"
  shows "Monitors_put_scalar c name v h
           = (None,
              fan_out (length (monitors h)) (put_scalar_call name v)
                @ fan_out (length (monitors h))
                    (put_summary_call [(name, simple_value (to_float32 x))]),
              h\<lparr>monitors :=
                   map (\<lambda>m. snd (monitor_put_summary c [(name, simple_value (to_float32 x))]
                                  (snd (monitor_put_scalar name v m))))
                     (monitors h),
                scalar_history := snd (ScalarHistory_put_scalar name v (scalar_history h))\<rparr>)"
proof -
  let ?h1 = "h\<lparr>monitors := map (\<lambda>m. snd (monitor_put_scalar name v m)) (monitors h),
                scalar_history := snd (ScalarHistory_put_scalar name v (scalar_history h))\<rparr>"
  from dispatch_put_scalar_state [OF r v, of name]
  have h1: "Monitors_dispatch_put_scalar name v h
             = (None, fan_out (length (monitors h)) (put_scalar_call name v), ?h1)"
    and r1: "hub_ready ?h1"
    by simp_all
  from dispatch_put_summary_state [OF r1, of c "[(name, simple_value (to_float32 x))]"]
  have h2: "Monitors_dispatch_put_summary c [(name, simple_value (to_float32 x))] ?h1
             = (None, fan_out (length (monitors ?h1))
                        (put_summary_call [(name, simple_value (to_float32 x))]),
                ?h1\<lparr>monitors :=
                   map (\<lambda>m. snd (monitor_put_summary c [(name, simple_value (to_float32 x))] m))
                     (monitors ?h1)\<rparr>)"
    by simp
  from h1 h2 v show ?thesis
    by (simp add: Monitors_put_scalar_def o_def)
qed

lemma example_hub_ready: "hub_ready example_hub"
  by (simp add: hub_ready_def example_hub_def)

lemma filter_eq_upt: "i < n \<Longrightarrow> filter (\<lambda>j. j = i) [0..<n] = [i]"
  by (induction n) (auto simp: less_Suc_eq)

lemma calls_of_fan_out: "i \<le> n \<Longrightarrow> calls_of i (fan_out n cl) = [cl]"
proof -
  assume "i \<le> n"
  then have "filter (\<lambda>j. j = i) [0..<Suc n] = [i]"
    by (intro filter_eq_upt) simp
  then show ?thesis
    unfolding calls_of_def fan_out_def filter_map o_def by simp
qed

lemma calls_of_append: "calls_of i (s @ t) = calls_of i s @ calls_of i t"
  by (simp add: calls_of_def)

lemma to_float32_examples:
  "to_float32 (Finite 3) = Finite 3"
  "to_float32 (Finite 16777217) = Finite 16777216"
  "to_float32 (Finite (3602879701896397 / 36028797018963968)) = Finite (13421773 / 134217728)"
  by code_simp+

text \<open>
  Claim C1, as stated, fails. \<^verbatim>\<open>put_scalar\<close> of the double \<^verbatim>\<open>16777217.0\<close> on a hub that
  has been set up returns normally, and the first registered monitor receives the scalar
  \<^verbatim>\<open>16777217.0\<close> but a record whose field is \<^verbatim>\<open>16777216.0\<close>; likewise the double
  nearest to \<^verbatim>\<open>0.1\<close> arrives in the record as \<^verbatim>\<open>0.100000001490116...\<close>. The record's
  field is not the value.
\<close>

theorem put_scalar_record_is_single_precision:
  "fst (Monitors_put_scalar example_counters ''x'' (PyFloat (Finite 16777217)) example_hub) = None
   \<and> calls_of 0 (fst (snd (Monitors_put_scalar example_counters ''x''
                              (PyFloat (Finite 16777217)) example_hub)))
       = [put_scalar_call ''x'' (PyFloat (Finite 16777217)),
          put_summary_call [(''x'', simple_value (Finite 16777216))]]
   \<and> calls_of 0 (fst (snd (Monitors_put_scalar example_counters ''x''
                    (PyFloat (Finite (3602879701896397 / 36028797018963968))) example_hub)))
       = [put_scalar_call ''x'' (PyFloat (Finite (3602879701896397 / 36028797018963968))),
          put_summary_call [(''x'', simple_value (Finite (13421773 / 134217728)))]]
   \<and> Finite 16777216 \<noteq> Finite 16777217
   \<and> Finite (13421773 / 134217728) \<noteq> Finite (3602879701896397 / 36028797018963968)"
proof -
  have len: "length (monitors example_hub) = 2"
    by (simp add: example_hub_def)
  have v: "py_float (PyFloat y) = Inr y" for y
    by simp
  note a = put_scalar_state [OF example_hub_ready v, of example_counters "''x''" "Finite 16777217"]
  note b = put_scalar_state [OF example_hub_ready v, of example_counters "''x''"
      "Finite (3602879701896397 / 36028797018963968)"]
  from a have 1: "fst (Monitors_put_scalar example_counters ''x'' (PyFloat (Finite 16777217)) example_hub) = None"
    by simp
  from a have 2: "calls_of 0 (fst (snd (Monitors_put_scalar example_counters ''x''
                              (PyFloat (Finite 16777217)) example_hub)))
       = [put_scalar_call ''x'' (PyFloat (Finite 16777217)),
          put_summary_call [(''x'', simple_value (Finite 16777216))]]"
    by (simp add: len calls_of_append calls_of_fan_out to_float32_examples)
  from b have 3: "calls_of 0 (fst (snd (Monitors_put_scalar example_counters ''x''
                    (PyFloat (Finite (3602879701896397 / 36028797018963968))) example_hub)))
       = [put_scalar_call ''x'' (PyFloat (Finite (3602879701896397 / 36028797018963968))),
          put_summary_call [(''x'', simple_value (Finite (13421773 / 134217728)))]]"
    by (simp add: len calls_of_append calls_of_fan_out to_float32_examples)
  have 4: "Finite 16777216 \<noteq> Finite 16777217"
    and 5: "Finite (13421773 / 134217728) \<noteq> Finite (3602879701896397 / 36028797018963968)"
    by simp_all
  from 1 2 3 4 5 show ?thesis
    by (intro conjI)
qed

text \<open>
  Claim C1, amended. On a hub that has been set up, \<^verbatim>\<open>Monitors.put_scalar\<close> with a value
  that \<^verbatim>\<open>float\<close> accepts returns normally. Its calls are one \<^verbatim>\<open>put_scalar(name, val)\<close> on
  every entry of \<^verbatim>\<open>_monitors\<close> in order, the store last, and then one \<^verbatim>\<open>put_summary\<close> on
  every entry in order, of the record whose only field is the name with the value rounded
  to single precision. Every registered monitor is left as its own \<^verbatim>\<open>put_scalar\<close> and
  then its own \<^verbatim>\<open>put_summary\<close>, applied once each, leave it, and the store as its
  \<^verbatim>\<open>put_scalar\<close> leaves it; each entry receives exactly these two calls; and the store's
  history of the name grows by this one value.
\<close>

theorem put_scalar_reaches_every_monitor_once:
  assumes "hub_ready h" and "py_float v = Inr x"
  shows "Monitors_put_scalar c name v h
           = (None,
              fan_out (length (monitors h)) (put_scalar_call name v)
                @ fan_out (length (monitors h))
                    (put_summary_call [(name, simple_value (to_float32 x))]),
              h\<lparr>monitors :=
                   map (\<lambda>m. snd (monitor_put_summary c [(name, simple_value (to_float32 x))]
                                  (snd (monitor_put_scalar name v m))))
                     (monitors h),
                scalar_history := snd (ScalarHistory_put_scalar name v (scalar_history h))\<rparr>)
     \<and> (\<forall>i \<le> length (monitors h).
           calls_of i (fst (snd (Monitors_put_scalar c name v h)))
             = [put_scalar_call name v, put_summary_call [(name, simple_value (to_float32 x))]])
     \<and> (\<exists>d d'. dic (scalar_history h) = Some d
           \<and> dic (snd (ScalarHistory_put_scalar name v (scalar_history h))) = Some d'
           \<and> hist_of d' name = hist_of d name @ [x])"
proof -
  note st = put_scalar_state [OF assms, of c name]
  from assms(1) obtain d where d: "dic (scalar_history h) = Some d"
    by (auto simp: hub_ready_def)
  from put_scalar_dic [OF d, of name v name] assms(2)
  have "\<exists>d'. dic (snd (ScalarHistory_put_scalar name v (scalar_history h))) = Some d'
           \<and> hist_of d' name = hist_of d name @ [x]"
    by simp
  with d have hist: "\<exists>d d'. dic (scalar_history h) = Some d
           \<and> dic (snd (ScalarHistory_put_scalar name v (scalar_history h))) = Some d'
           \<and> hist_of d' name = hist_of d name @ [x]"
    by blast
  have "\<forall>i \<le> length (monitors h).
      calls_of i (fst (snd (Monitors_put_scalar c name v h)))
        = [put_scalar_call name v, put_summary_call [(name, simple_value (to_float32 x))]]"
    unfolding st by (simp add: calls_of_append calls_of_fan_out)
  with st hist show ?thesis
    by blast
qed

theorem put_scalar_reaches_every_monitor_once_witness:
  "hub_ready example_hub \<and> py_float (PyFloat (Finite 3)) = Inr (Finite 3)
   \<and> Monitors_put_scalar example_counters ''x'' (PyFloat (Finite 3)) example_hub
       = (None,
          fan_out 2 (put_scalar_call ''x'' (PyFloat (Finite 3)))
            @ fan_out 2 (put_summary_call [(''x'', simple_value (Finite 3))]),
          example_hub
            \<lparr>monitors :=
               [NoOpMonitor None,
                JSONWriter (Some example_trainer)
                  (Some (example_writer\<lparr>stat_now := [(''x'', PyFloat (Finite 3))]\<rparr>))],
             scalar_history :=
               \<lparr>history_trainer = Some example_trainer, dic = Some [(''x'', [Finite 3])]\<rparr>\<rparr>)
   \<and> calls_of 0 (fst (snd (Monitors_put_scalar example_counters ''x'' (PyFloat (Finite 3)) example_hub)))
       = [put_scalar_call ''x'' (PyFloat (Finite 3)), put_summary_call [(''x'', simple_value (Finite 3))]]
   \<and> calls_of 2 (fst (snd (Monitors_put_scalar example_counters ''x'' (PyFloat (Finite 3)) example_hub)))
       = [put_scalar_call ''x'' (PyFloat (Finite 3)), put_summary_call [(''x'', simple_value (Finite 3))]]"
proof -
  have v: "py_float (PyFloat (Finite 3)) = Inr (Finite 3)"
    by simp
  have len: "length (monitors example_hub) = 2"
    by (simp add: example_hub_def)
  note inst = put_scalar_reaches_every_monitor_once [OF example_hub_ready v, of example_counters "''x''"]
  have mons: "map (\<lambda>m. snd (monitor_put_summary example_counters [(''x'', simple_value (Finite 3))]
                                  (snd (monitor_put_scalar ''x'' (PyFloat (Finite 3)) m))))
                     (monitors example_hub)
      = [NoOpMonitor None,
                JSONWriter (Some example_trainer)
                  (Some (example_writer\<lparr>stat_now := [(''x'', PyFloat (Finite 3))]\<rparr>))]"
    by (simp add: example_hub_def monitor_put_scalar_def monitor_put_summary_def
        TrainingMonitor_put_scalar_def TrainingMonitor_put_def TrainingMonitor_put_summary_def
        JSONWriter_put_scalar_def example_writer_def)
  have store: "snd (ScalarHistory_put_scalar ''x'' (PyFloat (Finite 3)) (scalar_history example_hub))
      = \<lparr>history_trainer = Some example_trainer, dic = Some [(''x'', [Finite 3])]\<rparr>"
    by (simp add: example_hub_def ScalarHistory_put_scalar_def defaultdict_getitem_def)
  from inst [THEN conjunct1] have 1: "Monitors_put_scalar example_counters ''x'' (PyFloat (Finite 3)) example_hub
       = (None,
          fan_out 2 (put_scalar_call ''x'' (PyFloat (Finite 3)))
            @ fan_out 2 (put_summary_call [(''x'', simple_value (Finite 3))]),
          example_hub
            \<lparr>monitors :=
               [NoOpMonitor None,
                JSONWriter (Some example_trainer)
                  (Some (example_writer\<lparr>stat_now := [(''x'', PyFloat (Finite 3))]\<rparr>))],
             scalar_history :=
               \<lparr>history_trainer = Some example_trainer, dic = Some [(''x'', [Finite 3])]\<rparr>\<rparr>)"
    by (simp only: len to_float32_examples mons store)
  from inst [THEN conjunct2, THEN conjunct1] have c: "\<forall>i \<le> 2.
           calls_of i (fst (snd (Monitors_put_scalar example_counters ''x'' (PyFloat (Finite 3)) example_hub)))
             = [put_scalar_call ''x'' (PyFloat (Finite 3)),
                put_summary_call [(''x'', simple_value (Finite 3))]]"
    unfolding len to_float32_examples .
  from c have 2: "calls_of 0 (fst (snd (Monitors_put_scalar example_counters ''x'' (PyFloat (Finite 3)) example_hub)))
       = [put_scalar_call ''x'' (PyFloat (Finite 3)), put_summary_call [(''x'', simple_value (Finite 3))]]"
    and 3: "calls_of 2 (fst (snd (Monitors_put_scalar example_counters ''x'' (PyFloat (Finite 3)) example_hub)))
       = [put_scalar_call ''x'' (PyFloat (Finite 3)), put_summary_call [(''x'', simple_value (Finite 3))]]"
    by simp_all
  from example_hub_ready v 1 2 3 show ?thesis
    by (intro conjI)
qed

lemma put_float:
  "py_float v = Inr x \<Longrightarrow> Monitors_put c name v h = Monitors_put_scalar c name (PyFloat x) h"
  by (simp add: Monitors_put_def)

lemma monitor_put_scalar_raises:
  "py_float v = Inl e \<Longrightarrow>
     fst (monitor_put_scalar n v m) = None \<or> fst (monitor_put_scalar n v m) = Some e"
  by (cases m)
    (simp_all add: monitor_put_scalar_def TrainingMonitor_put_scalar_def TrainingMonitor_put_def
       JSONWriter_put_scalar_def ScalarPrinter_put_scalar_def)

lemma for_each_raises:
  assumes f: "\<And>m. fst (f m) = None \<or> fst (f m) = Some e"
  shows "fst (for_each f cl i ms) = None \<or> fst (for_each f cl i ms) = Some e"
proof (induction ms arbitrary: i)
  case Nil
  then show ?case
    by simp
next
  case (Cons m ms)
  obtain r m' where fm: "f m = (r, m')"
    by (cases "f m")
  with f [of m] have r: "r = None \<or> r = Some e"
    by simp
  obtain r2 t2 ms2 where rest: "for_each f cl (Suc i) ms = (r2, t2, ms2)"
    by (cases "for_each f cl (Suc i) ms")
  with Cons.IH [of "Suc i"] have "r2 = None \<or> r2 = Some e"
    by simp
  with r fm rest show ?case
    by auto
qed

lemma put_scalar_raises:
  assumes v: "py_float v = Inl e" and d: "dic (scalar_history h) \<noteq> None"
  shows "fst (Monitors_put_scalar c name v h) = Some e"
proof -
  obtain r t ms where fe:
    "for_each (monitor_put_scalar name v) (put_scalar_call name v) 0 (monitors h) = (r, t, ms)"
    by (cases "for_each (monitor_put_scalar name v) (put_scalar_call name v) 0 (monitors h)")
  with for_each_raises [of "monitor_put_scalar name v" e "put_scalar_call name v" 0 "monitors h",
      OF monitor_put_scalar_raises [OF v]]
  have r: "r = None \<or> r = Some e"
    by simp
  from d obtain d0 where d0: "dic (scalar_history h) = Some d0"
    by auto
  obtain hist d1 where g: "defaultdict_getitem d0 name = (hist, d1)"
    by (cases "defaultdict_getitem d0 name")
  from d0 g v have "fst (ScalarHistory_put_scalar name v (scalar_history h)) = Some e"
    by (simp add: ScalarHistory_put_scalar_def)
  with r fe have "fst (Monitors_dispatch_put_scalar name v h) = Some e"
    by (auto simp: Monitors_dispatch_put_scalar_def split: prod.splits)
  then show ?thesis
    by (auto simp: Monitors_put_scalar_def split: prod.splits option.splits)
qed

lemma py_float_three: "py_float (PyInt 3) = Inr (Finite 3)"
  using int_to_float64_small [of 3] by simp

text \<open>
  Claim C6, as stated, fails for \<^verbatim>\<open>Monitors.put_scalar\<close>: called with the int \<^verbatim>\<open>3\<close>, which
  \<^verbatim>\<open>float\<close> turns into \<^verbatim>\<open>3.0\<close>, it hands the int to the first registered monitor, not
  the float.
\<close>

theorem put_scalar_does_not_coerce:
  "py_float (PyInt 3) = Inr (Finite 3)
   \<and> calls_of 0 (fst (snd (Monitors_put_scalar example_counters ''x'' (PyInt 3) example_hub)))
       = [put_scalar_call ''x'' (PyInt 3), put_summary_call [(''x'', simple_value (Finite 3))]]
   \<and> put_scalar_call ''x'' (PyInt 3) \<noteq> put_scalar_call ''x'' (PyFloat (Finite 3))"
proof -
  have len: "length (monitors example_hub) = 2"
    by (simp add: example_hub_def)
  from put_scalar_state [OF example_hub_ready py_float_three, of example_counters "''x''"]
  have "calls_of 0 (fst (snd (Monitors_put_scalar example_counters ''x'' (PyInt 3) example_hub)))
       = [put_scalar_call ''x'' (PyInt 3), put_summary_call [(''x'', simple_value (Finite 3))]]"
    by (simp add: len calls_of_append calls_of_fan_out to_float32_examples)
  with py_float_three show ?thesis
    by simp
qed

lemma int_to_float64_rounds: "int_to_float64 (2 ^ 53 + 1) = Inr (Finite (2 ^ 53))"
  by (simp add: int_to_float64_def bit_length.simps round_half_even_def Let_def)

text \<open>
  Claim C6, amended. \<^verbatim>\<open>Monitors.put\<close> applies \<^verbatim>\<open>float\<close> before anything is dispatched.
  When that raises, the error is returned, no call is made and the hub is unchanged:
  \<^verbatim>\<open>TypeError\<close> for \<^verbatim>\<open>None\<close>, \<^verbatim>\<open>OverflowError\<close> for an int of magnitude \<^verbatim>\<open>2^1024\<close> or
  more. An int below \<^verbatim>\<open>2^53\<close> in magnitude is coerced exactly, and \<^verbatim>\<open>2^53 + 1\<close> is
  rounded to \<^verbatim>\<open>2^53\<close>. Otherwise, on a hub that has been set up, every entry of
  \<^verbatim>\<open>_monitors\<close> receives the coerced float as a scalar and its single-precision rounding
  in the record, and every registered monitor is left as its own methods leave it on
  these arguments. \<^verbatim>\<open>Monitors.put_scalar\<close> itself hands the value on as it was given; a
  value that \<^verbatim>\<open>float\<close> rejects still raises there, the store being among the receivers.
\<close>

theorem put_coerces_or_raises:
  "(py_float v = Inl e \<longrightarrow> Monitors_put c name v h = (Some e, [], h))
   \<and> Monitors_put c name PyNone h = (Some TypeError, [], h)
   \<and> (2 ^ 1024 \<le> \<bar>i\<bar> \<longrightarrow> Monitors_put c name (PyInt i) h = (Some OverflowError, [], h))
   \<and> (\<bar>i\<bar> < 2 ^ 53 \<longrightarrow> py_float (PyInt i) = Inr (Finite (of_int i)))
   \<and> py_float (PyInt (2 ^ 53 + 1)) = Inr (Finite (2 ^ 53))
   \<and> (py_float v = Inr x \<and> hub_ready h \<longrightarrow>
        Monitors_put c name v h
          = (None,
             fan_out (length (monitors h)) (put_scalar_call name (PyFloat x))
               @ fan_out (length (monitors h))
                   (put_summary_call [(name, simple_value (to_float32 x))]),
             h\<lparr>monitors :=
                  map (\<lambda>m. snd (monitor_put_summary c [(name, simple_value (to_float32 x))]
                                 (snd (monitor_put_scalar name (PyFloat x) m))))
                    (monitors h),
               scalar_history :=
                 snd (ScalarHistory_put_scalar name (PyFloat x) (scalar_history h))\<rparr>))
   \<and> (py_float v = Inr x \<and> hub_ready h \<longrightarrow>
        fst (snd (Monitors_put_scalar c name v h))
          = fan_out (length (monitors h)) (put_scalar_call name v)
              @ fan_out (length (monitors h))
                  (put_summary_call [(name, simple_value (to_float32 x))]))
   \<and> (py_float v = Inl e \<and> dic (scalar_history h) \<noteq> None \<longrightarrow>
        fst (Monitors_put_scalar c name v h) = Some e)"
proof (intro conjI impI)
  assume "py_float v = Inl e"
  then show "Monitors_put c name v h = (Some e, [], h)"
    by (simp add: Monitors_put_def)
next
  show "Monitors_put c name PyNone h = (Some TypeError, [], h)"
    by (simp add: Monitors_put_def)
next
  assume "2 ^ 1024 \<le> \<bar>i\<bar>"
  from int_to_float64_overflow [OF this]
  show "Monitors_put c name (PyInt i) h = (Some OverflowError, [], h)"
    by (simp add: Monitors_put_def)
next
  assume "\<bar>i\<bar> < 2 ^ 53"
  from int_to_float64_small [OF this]
  show "py_float (PyInt i) = Inr (Finite (of_int i))"
    by simp
next
  show "py_float (PyInt (2 ^ 53 + 1)) = Inr (Finite (2 ^ 53))"
    using int_to_float64_rounds by simp
next
  assume a: "py_float v = Inr x \<and> hub_ready h"
  have "py_float (PyFloat x) = Inr x"
    by simp
  from put_scalar_state [OF _ this, of h c name] a
  show "Monitors_put c name v h
          = (None,
             fan_out (length (monitors h)) (put_scalar_call name (PyFloat x))
               @ fan_out (length (monitors h))
                   (put_summary_call [(name, simple_value (to_float32 x))]),
             h\<lparr>monitors :=
                  map (\<lambda>m. snd (monitor_put_summary c [(name, simple_value (to_float32 x))]
                                 (snd (monitor_put_scalar name (PyFloat x) m))))
                    (monitors h),
               scalar_history :=
                 snd (ScalarHistory_put_scalar name (PyFloat x) (scalar_history h))\<rparr>)"
    by (simp add: put_float)
next
  assume a: "py_float v = Inr x \<and> hub_ready h"
  then have "py_float v = Inr x" "hub_ready h"
    by simp_all
  from put_scalar_state [OF this(2) this(1), of c name]
  show "fst (snd (Monitors_put_scalar c name v h))
          = fan_out (length (monitors h)) (put_scalar_call name v)
              @ fan_out (length (monitors h))
                  (put_summary_call [(name, simple_value (to_float32 x))])"
    by simp
next
  assume "py_float v = Inl e \<and> dic (scalar_history h) \<noteq> None"
  then show "fst (Monitors_put_scalar c name v h) = Some e"
    by (intro put_scalar_raises) simp_all
qed

theorem put_coerces_or_raises_witness:
  "py_float PyNone = Inl TypeError
   \<and> Monitors_put example_counters ''x'' PyNone example_hub = (Some TypeError, [], example_hub)
   \<and> (2::int) ^ 1024 \<le> \<bar>10 ^ 400\<bar>
   \<and> Monitors_put example_counters ''x'' (PyInt (10 ^ 400)) example_hub
       = (Some OverflowError, [], example_hub)
   \<and> py_float (PyInt 3) = Inr (Finite 3) \<and> hub_ready example_hub
   \<and> Monitors_put example_counters ''x'' (PyInt 3) example_hub
       = (None,
          fan_out 2 (put_scalar_call ''x'' (PyFloat (Finite 3)))
            @ fan_out 2 (put_summary_call [(''x'', simple_value (Finite 3))]),
          example_hub
            \<lparr>monitors :=
               [NoOpMonitor None,
                JSONWriter (Some example_trainer)
                  (Some (example_writer\<lparr>stat_now := [(''x'', PyFloat (Finite 3))]\<rparr>))],
             scalar_history :=
               \<lparr>history_trainer = Some example_trainer, dic = Some [(''x'', [Finite 3])]\<rparr>\<rparr>)
   \<and> fst (snd (Monitors_put_scalar example_counters ''x'' (PyInt 3) example_hub))
       = fan_out 2 (put_scalar_call ''x'' (PyInt 3))
           @ fan_out 2 (put_summary_call [(''x'', simple_value (Finite 3))])
   \<and> dic (scalar_history example_hub) \<noteq> None
   \<and> fst (Monitors_put_scalar example_counters ''x'' PyNone example_hub) = Some TypeError"
proof -
  have n: "py_float PyNone = Inl TypeError"
    by simp
  have big: "(2::int) ^ 1024 \<le> \<bar>10 ^ 400\<bar>"
    by simp
  have len: "length (monitors example_hub) = 2"
    by (simp add: example_hub_def)
  have d: "dic (scalar_history example_hub) \<noteq> None"
    by (simp add: example_hub_def)
  have mons: "map (\<lambda>m. snd (monitor_put_summary example_counters [(''x'', simple_value (Finite 3))]
                                  (snd (monitor_put_scalar ''x'' (PyFloat (Finite 3)) m))))
                     (monitors example_hub)
      = [NoOpMonitor None,
                JSONWriter (Some example_trainer)
                  (Some (example_writer\<lparr>stat_now := [(''x'', PyFloat (Finite 3))]\<rparr>))]"
    by (simp add: example_hub_def monitor_put_scalar_def monitor_put_summary_def
        TrainingMonitor_put_scalar_def TrainingMonitor_put_def TrainingMonitor_put_summary_def
        JSONWriter_put_scalar_def example_writer_def)
  have store: "snd (ScalarHistory_put_scalar ''x'' (PyFloat (Finite 3)) (scalar_history example_hub))
      = \<lparr>history_trainer = Some example_trainer, dic = Some [(''x'', [Finite 3])]\<rparr>"
    by (simp add: example_hub_def ScalarHistory_put_scalar_def defaultdict_getitem_def)
  note none = put_coerces_or_raises [of PyNone TypeError example_counters "''x''" example_hub
      "10 ^ 400" "Finite 3"]
  note three = put_coerces_or_raises [of "PyInt 3" TypeError example_counters "''x''" example_hub
      "10 ^ 400" "Finite 3"]
  from none n have 1: "Monitors_put example_counters ''x'' PyNone example_hub
       = (Some TypeError, [], example_hub)"
    by blast
  from none big have 2: "Monitors_put example_counters ''x'' (PyInt (10 ^ 400)) example_hub
       = (Some OverflowError, [], example_hub)"
    by blast
  from three py_float_three example_hub_ready
  have "Monitors_put example_counters ''x'' (PyInt 3) example_hub
          = (None,
             fan_out (length (monitors example_hub)) (put_scalar_call ''x'' (PyFloat (Finite 3)))
               @ fan_out (length (monitors example_hub))
                   (put_summary_call [(''x'', simple_value (to_float32 (Finite 3)))]),
             example_hub\<lparr>monitors :=
                  map (\<lambda>m. snd (monitor_put_summary example_counters
                                 [(''x'', simple_value (to_float32 (Finite 3)))]
                                 (snd (monitor_put_scalar ''x'' (PyFloat (Finite 3)) m))))
                    (monitors example_hub),
               scalar_history :=
                 snd (ScalarHistory_put_scalar ''x'' (PyFloat (Finite 3))
                        (scalar_history example_hub))\<rparr>)"
    by blast
  then have 3: "Monitors_put example_counters ''x'' (PyInt 3) example_hub
       = (None,
          fan_out 2 (put_scalar_call ''x'' (PyFloat (Finite 3)))
            @ fan_out 2 (put_summary_call [(''x'', simple_value (Finite 3))]),
          example_hub
            \<lparr>monitors :=
               [NoOpMonitor None,
                JSONWriter (Some example_trainer)
                  (Some (example_writer\<lparr>stat_now := [(''x'', PyFloat (Finite 3))]\<rparr>))],
             scalar_history :=
               \<lparr>history_trainer = Some example_trainer, dic = Some [(''x'', [Finite 3])]\<rparr>\<rparr>)"
    by (simp only: len to_float32_examples mons store)
  from three py_float_three example_hub_ready
  have "fst (snd (Monitors_put_scalar example_counters ''x'' (PyInt 3) example_hub))
          = fan_out (length (monitors example_hub)) (put_scalar_call ''x'' (PyInt 3))
              @ fan_out (length (monitors example_hub))
                  (put_summary_call [(''x'', simple_value (to_float32 (Finite 3)))])"
    by blast
  then have 4: "fst (snd (Monitors_put_scalar example_counters ''x'' (PyInt 3) example_hub))
       = fan_out 2 (put_scalar_call ''x'' (PyInt 3))
           @ fan_out 2 (put_summary_call [(''x'', simple_value (Finite 3))])"
    by (simp only: len to_float32_examples)
  from none n d
  have 5: "fst (Monitors_put_scalar example_counters ''x'' PyNone example_hub) = Some TypeError"
    by blast
  from n 1 big 2 py_float_three example_hub_ready 3 4 d 5 show ?thesis
    by (intro conjI)
qed




section \<open>Name normalisation at dispatch\<close>










section \<open>Set-up of the hub\<close>

text \<open>
  Claim C5, as stated, fails. Set-up of a hub built over one \<^verbatim>\<open>JSONWriter\<close> does not make
  the calls \<^verbatim>\<open>setup_graph\<close> on entry 0 and entry 1 of \<^verbatim>\<open>_monitors\<close>: the registered writer
  receives no call and is left without its attributes.
\<close>

theorem setup_graph_skips_registered_monitors:
  "fst (snd (Monitors_setup_graph example_trainer (Monitors_init [fst (JSONWriter_new (Some ''log''))])))
     \<noteq> fan_out 1 (setup_graph_call example_trainer)
   \<and> calls_of 0 (fst (snd (Monitors_setup_graph example_trainer
         (Monitors_init [fst (JSONWriter_new (Some ''log''))])))) = []
   \<and> monitors (snd (snd (Monitors_setup_graph example_trainer
         (Monitors_init [fst (JSONWriter_new (Some ''log''))])))) = [JSONWriter None None]
   \<and> \<not> is_setup (JSONWriter None None)"
  by (simp add: Monitors_setup_graph_def Monitors_init_def JSONWriter_new_def truthy_def
      fan_out_def calls_of_def)

text \<open>
  Claim C5, amended. \<^verbatim>\<open>setup_graph\<close> on the hub stores the trainer in the hub and makes
  exactly one call, \<^verbatim>\<open>setup_graph\<close> on its own scalar-history store, which stores the
  trainer and creates the empty \<^verbatim>\<open>_dic\<close>; the monitors the caller registered receive no
  call and are unchanged.
\<close>

theorem setup_graph_sets_up_the_store_only:
  "Monitors_setup_graph tr h =
     (None, [(length (monitors h), setup_graph_call tr)],
      h\<lparr>hub_trainer := Some tr,
        scalar_history := (scalar_history h)\<lparr>history_trainer := Some tr, dic := Some []\<rparr>\<rparr>)
   \<and> monitors (snd (snd (Monitors_setup_graph tr h))) = monitors h
   \<and> hub_trainer (snd (snd (Monitors_setup_graph tr h))) = Some tr
   \<and> calls_of (length (monitors h)) (fst (snd (Monitors_setup_graph tr h))) = [setup_graph_call tr]
   \<and> filter (\<lambda>e. fst e < length (monitors h)) (fst (snd (Monitors_setup_graph tr h))) = []"
  by (simp add: Monitors_setup_graph_def ScalarHistory_setup_graph_def calls_of_def)

section \<open>Writers without a log directory\<close>

text \<open>
  Claim C8. When \<^verbatim>\<open>logger.LOG_DIR\<close> is unset or empty, \<^verbatim>\<open>TFSummaryWriter()\<close> and
  \<^verbatim>\<open>JSONWriter()\<close> are a \<^verbatim>\<open>NoOpMonitor\<close>, on which \<^verbatim>\<open>put_summary\<close>, \<^verbatim>\<open>put\<close>,
  \<^verbatim>\<open>put_scalar\<close>, the step and epoch triggers and the teardown return normally and change
  nothing, and \<^verbatim>\<open>setup_graph\<close> returns normally and only binds the trainer.
\<close>

theorem no_log_dir_gives_no_op_monitor:
  assumes "\<not> truthy LOG_DIR"
  shows "fst (TFSummaryWriter_new LOG_DIR) = NoOpMonitor None
   \<and> fst (JSONWriter_new LOG_DIR) = NoOpMonitor None
   \<and> monitor_setup_graph f tr (NoOpMonitor t) = (None, NoOpMonitor (Some tr))
   \<and> monitor_put_summary c s (NoOpMonitor t) = (None, NoOpMonitor t)
   \<and> monitor_put_scalar name v (NoOpMonitor t) = (None, NoOpMonitor t)
   \<and> TrainingMonitor_put name v (NoOpMonitor t) = (None, NoOpMonitor t)
   \<and> Callback_trigger_step (NoOpMonitor t) = (None, NoOpMonitor t)
   \<and> Callback_trigger_epoch (NoOpMonitor t) = (None, NoOpMonitor t)
   \<and> Callback_after_train (NoOpMonitor t) = (None, NoOpMonitor t)"
  using assms
  by (simp add: TFSummaryWriter_new_def JSONWriter_new_def monitor_setup_graph_def
      monitor_put_summary_def monitor_put_scalar_def TrainingMonitor_put_summary_def
      TrainingMonitor_put_scalar_def TrainingMonitor_put_def Callback_trigger_step_def
      Callback_trigger_epoch_def Callback_after_train_def)

theorem no_log_dir_gives_no_op_monitor_witness:
  "\<not> truthy None \<and> \<not> truthy (Some [])
   \<and> fst (TFSummaryWriter_new None) = NoOpMonitor None
   \<and> fst (JSONWriter_new (Some [])) = NoOpMonitor None
   \<and> monitor_put_scalar ''loss'' PyNone (fst (JSONWriter_new None)) = (None, NoOpMonitor None)
   \<and> monitor_setup_graph not_json example_trainer (fst (JSONWriter_new None))
        = (None, NoOpMonitor (Some example_trainer))"
proof -
  have a: "\<not> truthy None" and b: "\<not> truthy (Some [])"
    by (simp_all add: truthy_def)
  note n = no_log_dir_gives_no_op_monitor [OF a, of not_json example_trainer None example_counters "[]" "''loss''" PyNone]
  note e = no_log_dir_gives_no_op_monitor [OF b, of not_json example_trainer None example_counters "[]" "''loss''" PyNone]
  from n have 1: "fst (TFSummaryWriter_new None) = NoOpMonitor None"
    and j: "fst (JSONWriter_new None) = NoOpMonitor None"
    and 3: "monitor_put_scalar ''loss'' PyNone (NoOpMonitor None) = (None, NoOpMonitor None)"
    and 4: "monitor_setup_graph not_json example_trainer (NoOpMonitor None)
        = (None, NoOpMonitor (Some example_trainer))"
    by blast+
  from e have 2: "fst (JSONWriter_new (Some [])) = NoOpMonitor None"
    by blast
  from a b 1 2 3 4 j show ?thesis
    by simp
qed

end
